theory Spec2Isabelle
  imports Main
begin

section \<open>The Workspace panel: data model\<close>

text \<open>
  The development embeds the component \<^verbatim>\<open>WorkspacePanel\<close> of
  \<^verbatim>\<open>frontend_workspaces/agentic_chat/src/WorkspacePanel.tsx\<close>. The React state
  hooks of the component are the fields of one record; a handler is a function from
  the state to the new state and the list of effects it performs (network requests,
  alerts, console output, calls into the DOM). An \<^verbatim>\<open>async\<close> handler is cut at
  its \<^verbatim>\<open>await\<close>s into segments: the segment that runs when the handler is invoked,
  and one segment per awaited promise, which takes what the environment answered and
  what the closure captured as parameters. The run of a handler with no other handler
  in between is the composition of its segments.
\<close>

datatype node_type = File | Directory

datatype FileNode =
  FileNode (name: string) (path: string) (type: node_type) (children: "FileNode list option")

record selected_file =
  sel_path :: string
  sel_content :: string
  sel_name :: string

record delete_confirmation =
  conf_file :: FileNode
  conf_isOpen :: bool

record panel =
  fileTree :: "FileNode list"
  expandedFolders :: "string set"
  selectedFile :: "selected_file option"
  loading :: bool
  error :: "string option"
  deleteConfirmation :: "delete_confirmation option"
  isDragOver :: bool

text \<open>The state of a freshly mounted component (the arguments of the \<^verbatim>\<open>useState\<close> calls).\<close>

definition initial_panel :: panel where
  "initial_panel =
     \<lparr>fileTree = [], expandedFolders = {}, selectedFile = None, loading = False,
      error = None, deleteConfirmation = None, isDragOver = False\<rparr>"

subsection \<open>Effects\<close>

text \<open>
  A request names the endpoint and the path or file name it carries. \<open>GetTree\<close> is the
  call \<^verbatim>\<open>workspaceService.getWorkspaceTree()\<close>; the other four are the direct
  \<^verbatim>\<open>fetch\<close> calls of the handlers.
\<close>

datatype request =
  GetTree
  | GetFile string
  | GetDownload string
  | DeleteFile string
  | PostUpload string

datatype dom_step =
  CreateObjectURL | CreateElement | AppendChild | Click | RevokeObjectURL | RemoveChild

datatype effect =
  Fetch request
  | Alert string
  | ConsoleError string
  | Dom dom_step

fun is_fetch :: "effect \<Rightarrow> bool" where
  "is_fetch (Fetch r) = True"
| "is_fetch e = False"

section \<open>Expansion state\<close>

text \<open>
  \<^verbatim>\<open>toggleFolder\<close> copies the set, deletes the path when the copy has it and adds it
  otherwise, and stores the copy.
\<close>

definition toggleFolder :: "string \<Rightarrow> panel \<Rightarrow> panel" where
  "toggleFolder p s =
     (let newExpanded = expandedFolders s;
          newExpanded = (if p \<in> newExpanded then newExpanded - {p} else insert p newExpanded)
      in s\<lparr>expandedFolders := newExpanded\<rparr>)"

section \<open>The tree refresh\<close>

text \<open>
  \<^verbatim>\<open>loadWorkspaceTree\<close> clears the error, imports the service module, calls
  \<^verbatim>\<open>getWorkspaceTree()\<close> and stores \<^verbatim>\<open>data.tree || []\<close>; any rejection is
  caught, logged and turned into the error text. The service module is not part of the
  component, so what it answers is a parameter: the import rejects (no call is made),
  the call rejects, or the call resolves with a \<^verbatim>\<open>tree\<close> field that is an array
  or is missing.
\<close>

datatype tree_outcome =
  ImportRejected
  | TreeRejected
  | TreeResolved "FileNode list option"

definition loadWorkspaceTree_start :: "panel \<Rightarrow> panel" where
  "loadWorkspaceTree_start s = s\<lparr>error := None\<rparr>"

fun loadWorkspaceTree_request :: "tree_outcome \<Rightarrow> effect list" where
  "loadWorkspaceTree_request ImportRejected = []"
| "loadWorkspaceTree_request TreeRejected = [Fetch GetTree]"
| "loadWorkspaceTree_request (TreeResolved t) = [Fetch GetTree]"

fun loadWorkspaceTree_resume :: "tree_outcome \<Rightarrow> panel \<Rightarrow> panel \<times> effect list" where
  "loadWorkspaceTree_resume (TreeResolved t) s =
     (s\<lparr>fileTree := (case t of Some tree \<Rightarrow> tree | None \<Rightarrow> [])\<rparr>, [])"
| "loadWorkspaceTree_resume failure s =
     (s\<lparr>error := Some ''Error loading workspace''\<rparr>, [ConsoleError ''Error loading workspace:''])"

definition loadWorkspaceTree :: "tree_outcome \<Rightarrow> panel \<Rightarrow> panel \<times> effect list" where
  "loadWorkspaceTree out s =
     (let (s', fx) = loadWorkspaceTree_resume out (loadWorkspaceTree_start s)
      in (s', loadWorkspaceTree_request out @ fx))"

section \<open>The rendered tree\<close>

text \<open>
  \<^verbatim>\<open>renderFileTree\<close> maps every node to an item indented by \<^verbatim>\<open>level * 16\<close>
  pixels; a directory shows the open chevron when its path is in the expansion set,
  and its children are rendered, one level deeper, when it is a directory, its path
  is in the expansion set and it has a \<^verbatim>\<open>children\<close> array.
\<close>

datatype view =
  Item (marginLeft: nat) (item_path: string) (item_name: string) (item_type: node_type)
    (chevronDown: bool) (highlighted: bool) (folder_children: "view list option")

primrec renderNode :: "string set \<Rightarrow> string option \<Rightarrow> FileNode \<Rightarrow> nat \<Rightarrow> view" where
  "renderNode expanded highlightedFile (FileNode n p t cs) =
     (\<lambda>level. Item (level * 16) p n t (t = Directory \<and> p \<in> expanded) (highlightedFile = Some p)
        (if t = Directory \<and> p \<in> expanded
         then map_option (map (\<lambda>c. renderNode expanded highlightedFile c (level + 1))) cs
         else None))"

definition renderFileTree :: "string set \<Rightarrow> string option \<Rightarrow> FileNode list \<Rightarrow> nat \<Rightarrow> view list" where
  "renderFileTree expanded highlightedFile nodes level =
     map (\<lambda>node. renderNode expanded highlightedFile node level) nodes"

text \<open>The paths that occur in a tree, at any depth.\<close>

primrec node_paths :: "FileNode \<Rightarrow> string set" where
  "node_paths (FileNode n p t cs) =
     insert p (case map_option (map node_paths) cs of None \<Rightarrow> {} | Some l \<Rightarrow> \<Union>(set l))"

definition tree_paths :: "FileNode list \<Rightarrow> string set" where
  "tree_paths nodes = \<Union>(set (map node_paths nodes))"

section \<open>Preview\<close>

text \<open>
  The extension test of \<^verbatim>\<open>handleFileClick\<close>:
  \<^verbatim>\<open>textExtensions.some(ext => file.name.toLowerCase().endsWith(ext))\<close>.
  The extensions are ASCII, and the only characters that \<^verbatim>\<open>toLowerCase\<close> maps to
  the ASCII letters occurring in them are the ASCII capitals, so lower-casing is
  modelled on the ASCII capitals and leaves every other character alone.
\<close>

definition toLowerChar :: "char \<Rightarrow> char" where
  "toLowerChar c =
     (let n = (of_char c :: nat) in if 65 \<le> n \<and> n \<le> 90 then char_of (n + 32) else c)"

definition toLowerCase :: "string \<Rightarrow> string" where
  "toLowerCase str = map toLowerChar str"

definition endsWith :: "string \<Rightarrow> string \<Rightarrow> bool" where
  "endsWith str searchString =
     (length searchString \<le> length str
      \<and> drop (length str - length searchString) str = searchString)"

definition textExtensions :: "string list" where
  "textExtensions =
     [''.txt'', ''.md'', ''.json'', ''.yaml'', ''.yml'', ''.log'', ''.csv'', ''.html'',
      ''.css'', ''.js'', ''.ts'', ''.py'']"

definition isTextFile :: "FileNode \<Rightarrow> bool" where
  "isTextFile f = list_ex (\<lambda>ext. endsWith (toLowerCase (name f)) ext) textExtensions"

text \<open>
  The allow-list as the specification words it: a name is previewable when, compared
  without regard to case, it ends with one of the twelve extensions.
\<close>

definition same_ignoring_case :: "string \<Rightarrow> string \<Rightarrow> bool" where
  "same_ignoring_case a b = (toLowerCase a = toLowerCase b)"

definition previewable_name :: "string \<Rightarrow> bool" where
  "previewable_name nm =
     (\<exists>ext \<in> {''.txt'', ''.md'', ''.json'', ''.yaml'', ''.yml'', ''.log'', ''.csv'', ''.html'',
               ''.css'', ''.js'', ''.ts'', ''.py''}.
        length ext \<le> length nm \<and> same_ignoring_case (drop (length nm - length ext) nm) ext)"

text \<open>
  \<^verbatim>\<open>handleFileClick\<close> up to its \<^verbatim>\<open>await fetch(...)\<close>. The third component
  says whether the handler is now suspended at the fetch; a directory click and a
  rejected extension return before it. The request is identified by the path it
  carries; \<^verbatim>\<open>encodeURIComponent\<close> is taken to succeed, as it does on every
  well-formed string.
\<close>

definition handleFileClick_start :: "FileNode \<Rightarrow> panel \<Rightarrow> panel \<times> effect list \<times> bool" where
  "handleFileClick_start f s =
     (if type f = Directory then (toggleFolder (path f) s, [], False)
      else if \<not> isTextFile f
      then (s, [Alert ''Only text and markdown files can be previewed''], False)
      else (s\<lparr>loading := True\<rparr>, [Fetch (GetFile (path f))], True))"

text \<open>
  What the fetch of the file body answers: a 2xx response whose JSON carries the
  content, a response that is not ok, or a rejection (of the fetch or of the JSON
  parse).
\<close>

datatype file_outcome =
  FileOk string
  | FileNotOk
  | FileRejected

text \<open>
  The rest of \<^verbatim>\<open>handleFileClick\<close>, run when the fetch settles. The file is the one
  the closure holds; the state is the one current at that moment.
\<close>

fun handleFileClick_resume :: "FileNode \<Rightarrow> file_outcome \<Rightarrow> panel \<Rightarrow> panel \<times> effect list" where
  "handleFileClick_resume f (FileOk content) s =
     (s\<lparr>selectedFile := Some \<lparr>sel_path = path f, sel_content = content, sel_name = name f\<rparr>,
        loading := False\<rparr>, [])"
| "handleFileClick_resume f FileNotOk s =
     (s\<lparr>loading := False\<rparr>, [Alert ''Failed to load file''])"
| "handleFileClick_resume f FileRejected s =
     (s\<lparr>loading := False\<rparr>, [ConsoleError ''Error loading file:'', Alert ''Error loading file''])"

definition handleFileClick :: "FileNode \<Rightarrow> file_outcome \<Rightarrow> panel \<Rightarrow> panel \<times> effect list" where
  "handleFileClick f out s =
     (let (s1, fx1, suspended) = handleFileClick_start f s
      in if suspended
         then (let (s2, fx2) = handleFileClick_resume f out s1 in (s2, fx1 @ fx2))
         else (s1, fx1))"

text \<open>
  Two previews in flight at once: the first is requested, the second is requested
  before the first has settled, the second settles, then the first.
\<close>

definition overlapping_previews ::
  "FileNode \<Rightarrow> file_outcome \<Rightarrow> FileNode \<Rightarrow> file_outcome \<Rightarrow> panel \<Rightarrow> panel" where
  "overlapping_previews a out_a b out_b s =
     (let (s1, fx1, w1) = handleFileClick_start a s;
          (s2, fx2, w2) = handleFileClick_start b s1;
          (s3, fx3) = handleFileClick_resume b out_b s2;
          (s4, fx4) = handleFileClick_resume a out_a s3
      in s4)"

section \<open>Download\<close>

text \<open>
  \<^verbatim>\<open>handleDownload\<close> touches no state hook; it is modelled by the effects it
  performs. After a 2xx response and its blob the handler makes six calls in a row:
  \<^verbatim>\<open>createObjectURL\<close>, \<^verbatim>\<open>createElement\<close>, \<^verbatim>\<open>appendChild\<close>, \<^verbatim>\<open>click\<close>,
  \<^verbatim>\<open>revokeObjectURL\<close>, \<^verbatim>\<open>removeChild\<close>. All of them are inside the one
  \<^verbatim>\<open>try\<close> block, whose \<^verbatim>\<open>catch\<close> logs and alerts; there is no \<^verbatim>\<open>finally\<close>.
  The environment says which of the calls, if any, throws: the calls before it are
  performed, the call itself and the ones after it are not.
\<close>

definition download_calls :: "dom_step list" where
  "download_calls =
     [CreateObjectURL, CreateElement, AppendChild, Click, RevokeObjectURL, RemoveChild]"

fun run_calls :: "dom_step option \<Rightarrow> dom_step list \<Rightarrow> effect list \<times> bool" where
  "run_calls throwing [] = ([], False)"
| "run_calls throwing (c # cs) =
     (if throwing = Some c then ([], True)
      else (let (fx, thrown) = run_calls throwing cs in (Dom c # fx, thrown)))"

datatype download_outcome =
  DownloadRejected
  | DownloadNotOk
  | BlobRejected
  | BlobResolved "dom_step option"

fun handleDownload :: "string \<Rightarrow> string \<Rightarrow> download_outcome \<Rightarrow> effect list" where
  "handleDownload filePath fileName DownloadRejected =
     [Fetch (GetDownload filePath), ConsoleError ''Error downloading file:'',
      Alert ''Error downloading file'']"
| "handleDownload filePath fileName DownloadNotOk =
     [Fetch (GetDownload filePath), Alert ''Failed to download file'']"
| "handleDownload filePath fileName BlobRejected =
     [Fetch (GetDownload filePath), ConsoleError ''Error downloading file:'',
      Alert ''Error downloading file'']"
| "handleDownload filePath fileName (BlobResolved throwing) =
     (let (fx, thrown) = run_calls throwing download_calls
      in Fetch (GetDownload filePath) # fx
         @ (if thrown
            then [ConsoleError ''Error downloading file:'', Alert ''Error downloading file'']
            else []))"

text \<open>How often an effect list creates, and how often it releases, the object URL.\<close>

definition urls_created :: "effect list \<Rightarrow> nat" where
  "urls_created fx = length (filter (\<lambda>e. e = Dom CreateObjectURL) fx)"

definition urls_released :: "effect list \<Rightarrow> nat" where
  "urls_released fx = length (filter (\<lambda>e. e = Dom RevokeObjectURL) fx)"

section \<open>Delete\<close>

text \<open>
  \<^verbatim>\<open>handleDeleteClick\<close> has its body commented out, \<^verbatim>\<open>handleDeleteCancel\<close>
  drops the staged confirmation.
\<close>

definition handleDeleteClick :: "FileNode \<Rightarrow> panel \<Rightarrow> panel \<times> effect list" where
  "handleDeleteClick f s = (s, [])"


text \<open>
  What the DELETE request answers, and the run of \<^verbatim>\<open>handleDeleteConfirm\<close>. The
  handler returns at once when nothing is staged. Otherwise it sets the loading flag and
  sends the request; on a 2xx response it awaits \<^verbatim>\<open>loadWorkspaceTree()\<close> (which
  catches its own failures) and then clears the selected file when the
  \<^verbatim>\<open>selectedFile\<close> that the handler's closure holds, the one of the state the handler
  was invoked in, has the path of the deleted file. The \<^verbatim>\<open>finally\<close> block runs on
  every path that got past the first line.
\<close>

datatype delete_outcome =
  DeleteOk
  | DeleteNotOk
  | DeleteRejected

definition handleDeleteConfirm_finally :: "panel \<Rightarrow> panel" where
  "handleDeleteConfirm_finally s = s\<lparr>loading := False, deleteConfirmation := None\<rparr>"

definition handleDeleteConfirm ::
  "delete_outcome \<Rightarrow> tree_outcome \<Rightarrow> panel \<Rightarrow> panel \<times> effect list" where
  "handleDeleteConfirm del_out tree_out s =
     (case deleteConfirmation s of
        None \<Rightarrow> (s, [])
      | Some confirmation \<Rightarrow>
          (let f = conf_file confirmation;
               s1 = s\<lparr>loading := True\<rparr>;
               request = Fetch (DeleteFile (path f))
           in case del_out of
                DeleteOk \<Rightarrow>
                  (let (s2, fx) = loadWorkspaceTree tree_out s1;
                       s3 = (case selectedFile s of
                               Some sel \<Rightarrow>
                                 if sel_path sel = path f then s2\<lparr>selectedFile := None\<rparr> else s2
                             | None \<Rightarrow> s2)
                   in (handleDeleteConfirm_finally s3, request # fx))
              | DeleteNotOk \<Rightarrow>
                  (handleDeleteConfirm_finally s1, [request, Alert ''Failed to delete file''])
              | DeleteRejected \<Rightarrow>
                  (handleDeleteConfirm_finally s1,
                   [request, ConsoleError ''Error deleting file:'', Alert ''Error deleting file''])))"

text \<open>
  \<^verbatim>\<open>handleDeleteConfirm\<close> cut at its two awaits, so that what other handlers do
  while the DELETE and the refresh are in flight can be placed in between. The first
  segment runs when the handler is invoked: besides the state and the request it gives
  what the closure of this invocation holds for the rest of the run, the file of the
  staged confirmation and the \<^verbatim>\<open>selectedFile\<close> of the render the handler belongs
  to; nothing is held when the handler returned at the null check.
\<close>

definition handleDeleteConfirm_start ::
  "panel \<Rightarrow> panel \<times> effect list \<times> (FileNode \<times> selected_file option) option" where
  "handleDeleteConfirm_start s =
     (case deleteConfirmation s of
        None \<Rightarrow> (s, [], None)
      | Some confirmation \<Rightarrow>
          (s\<lparr>loading := True\<rparr>, [Fetch (DeleteFile (path (conf_file confirmation)))],
           Some (conf_file confirmation, selectedFile s)))"

text \<open>
  The segment that runs when the DELETE settles, on the state current at that moment.
  After a 2xx response the handler enters \<^verbatim>\<open>loadWorkspaceTree\<close> and is suspended
  again (third component); otherwise it alerts and runs the \<^verbatim>\<open>finally\<close> block.
\<close>

fun handleDeleteConfirm_response ::
  "delete_outcome \<Rightarrow> panel \<Rightarrow> panel \<times> effect list \<times> bool" where
  "handleDeleteConfirm_response DeleteOk s = (loadWorkspaceTree_start s, [], True)"
| "handleDeleteConfirm_response DeleteNotOk s =
     (handleDeleteConfirm_finally s, [Alert ''Failed to delete file''], False)"
| "handleDeleteConfirm_response DeleteRejected s =
     (handleDeleteConfirm_finally s,
      [ConsoleError ''Error deleting file:'', Alert ''Error deleting file''], False)"

text \<open>
  The segment that runs when the refresh settles, on the state current at that moment:
  the rest of \<^verbatim>\<open>loadWorkspaceTree\<close>, then the test
  \<^verbatim>\<open>selectedFile && selectedFile.path === file.path\<close> on the two things the closure
  holds, then the \<^verbatim>\<open>finally\<close> block.
\<close>

definition handleDeleteConfirm_refreshed ::
  "FileNode \<Rightarrow> selected_file option \<Rightarrow> tree_outcome \<Rightarrow> panel \<Rightarrow> panel \<times> effect list" where
  "handleDeleteConfirm_refreshed f held tree_out s =
     (let (s1, fx) = loadWorkspaceTree_resume tree_out s;
          s2 = (case held of
                  Some sel \<Rightarrow> if sel_path sel = path f then s1\<lparr>selectedFile := None\<rparr> else s1
                | None \<Rightarrow> s1)
      in (handleDeleteConfirm_finally s2, loadWorkspaceTree_request tree_out @ fx))"

text \<open>
  What else can write the selected file while a delete is in flight: the fetch of a
  preview requested earlier settles (the rest of \<^verbatim>\<open>handleFileClick\<close>), or the user
  closes the viewer (\<^verbatim>\<open>setSelectedFile(null)\<close> on the overlay and on the close
  button).
\<close>

datatype other_event =
  PreviewSettles FileNode file_outcome
  | ViewerCloses

fun other_step :: "other_event \<Rightarrow> panel \<Rightarrow> panel" where
  "other_step (PreviewSettles f out) s = fst (handleFileClick_resume f out s)"
| "other_step ViewerCloses s = s\<lparr>selectedFile := None\<rparr>"

text \<open>
  A run of \<^verbatim>\<open>handleDeleteConfirm\<close> with the events that happen while the DELETE is
  in flight and the events that happen while the refresh is in flight.
\<close>

definition handleDeleteConfirm_between ::
  "delete_outcome \<Rightarrow> tree_outcome \<Rightarrow> other_event list \<Rightarrow> other_event list \<Rightarrow> panel
     \<Rightarrow> panel \<times> effect list" where
  "handleDeleteConfirm_between del_out tree_out during_delete during_refresh s =
     (case handleDeleteConfirm_start s of
        (s1, fx1, None) \<Rightarrow> (s1, fx1)
      | (s1, fx1, Some (f, held)) \<Rightarrow>
          (case handleDeleteConfirm_response del_out (fold other_step during_delete s1) of
             (s2, fx2, False) \<Rightarrow> (s2, fx1 @ fx2)
           | (s2, fx2, True) \<Rightarrow>
               (let (s3, fx3) =
                      handleDeleteConfirm_refreshed f held tree_out (fold other_step during_refresh s2)
                in (s3, fx1 @ fx2 @ fx3))))"

section \<open>Upload\<close>











section \<open>The throttle on workspace calls\<close>

text \<open>
  Modelled from the spec: the throttle module (the application imports it as
  \<^verbatim>\<open>./workspaceThrottle\<close>) and the service module \<^verbatim>\<open>./workspaceService\<close> whose
  calls it gates are not among the sources; the component only calls
  \<^verbatim>\<open>getWorkspaceTree()\<close>, once per trigger. The specification names four sources
  of a tree refresh: the panel opening, the manual refresh button, the periodic timer
  and the refresh after an operation.
\<close>

datatype trigger = PanelOpen | ManualRefresh | TimerTick | PostOperation

text \<open>
  Modelled from the spec: the specification asks that bursts be collapsed into the
  allowed rate and does not say what becomes of a call that arrives too early, so the
  model has both readings: the call is held back until the spacing has passed, or it
  is dropped.
\<close>

datatype early_call = Deferred | Dropped

text \<open>
  Modelled from the spec: one gate, shared by every call site, keeps a minimum spacing
  between the issuance of any two workspace calls, whatever triggered them. The gate
  remembers when the last call went out (nothing before the first call); a call that
  arrives at \<open>now\<close> goes out at once when the spacing has passed, and is otherwise
  deferred to the end of the spacing or dropped. The result is the time at which the
  call goes out, if it does. Times are in milliseconds.
\<close>

fun throttle_issue :: "nat \<Rightarrow> early_call \<Rightarrow> nat option \<Rightarrow> nat \<Rightarrow> nat option" where
  "throttle_issue minSpacing policy None now = Some now"
| "throttle_issue minSpacing Deferred (Some lastCall) now = Some (max now (lastCall + minSpacing))"
| "throttle_issue minSpacing Dropped (Some lastCall) now =
     (if lastCall + minSpacing \<le> now then Some now else None)"

text \<open>
  Modelled from the spec: the gate applied to the calls that reach it, each with its
  trigger, its request and the time it arrives. The result is the log of the requests
  that go out on the network, each with the time it goes out; the trigger plays no part.
\<close>

fun throttled ::
  "nat \<Rightarrow> early_call \<Rightarrow> nat option \<Rightarrow> (trigger \<times> request \<times> nat) list \<Rightarrow> (nat \<times> request) list" where
  "throttled minSpacing policy lastCall [] = []"
| "throttled minSpacing policy lastCall ((source, r, now) # calls) =
     (case throttle_issue minSpacing policy lastCall now of
        None \<Rightarrow> throttled minSpacing policy lastCall calls
      | Some issued \<Rightarrow> (issued, r) # throttled minSpacing policy (Some issued) calls)"

text \<open>Every trigger of a tree refresh runs \<^verbatim>\<open>loadWorkspaceTree\<close>, which makes one call for the tree.\<close>

definition refresh_calls :: "(trigger \<times> nat) list \<Rightarrow> (trigger \<times> request \<times> nat) list" where
  "refresh_calls triggers = map (\<lambda>(source, now). (source, GetTree, now)) triggers"

text \<open>The requests that went out in the window of one spacing that starts at \<open>start\<close>.\<close>

definition issued_in_window :: "nat \<Rightarrow> nat \<Rightarrow> (nat \<times> request) list \<Rightarrow> (nat \<times> request) list" where
  "issued_in_window minSpacing start out =
     filter (\<lambda>(issued, r). start \<le> issued \<and> issued < start + minSpacing) out"

text \<open>A log of issued requests in which each is at least one spacing after the one before.\<close>

fun spaced :: "nat \<Rightarrow> nat option \<Rightarrow> (nat \<times> 'a) list \<Rightarrow> bool" where
  "spaced minSpacing lastCall [] = True"
| "spaced minSpacing lastCall ((issued, r) # xs) =
     ((case lastCall of None \<Rightarrow> True | Some l \<Rightarrow> l + minSpacing \<le> issued)
      \<and> spaced minSpacing (Some issued) xs)"

section \<open>Properties\<close>

subsection \<open>Auxiliary facts\<close>

lemma toLowerCase_length: "length (toLowerCase str) = length str"
  by (simp add: toLowerCase_def)

lemma toLowerCase_drop: "drop n (toLowerCase str) = toLowerCase (drop n str)"
  by (simp add: toLowerCase_def drop_map)

text \<open>The test the handler computes is the allow-list of the specification.\<close>

lemma isTextFile_previewable: "isTextFile f = previewable_name (name f)"
  by (simp add: isTextFile_def previewable_name_def textExtensions_def endsWith_def
        same_ignoring_case_def toLowerCase_length toLowerCase_drop)
     (simp add: toLowerCase_def toLowerChar_def)

text \<open>A path that no node of the tree carries has no influence on what is rendered.\<close>

lemma renderNode_stale:
  "p \<notin> node_paths nd \<Longrightarrow>
     renderNode (insert p expanded) hl nd level = renderNode expanded hl nd level"
proof (induction nd arbitrary: level)
  case (FileNode n q t cs)
  show ?case
  proof (cases cs)
    case None
    with FileNode.prems show ?thesis by auto
  next
    case (Some l)
    have "map (\<lambda>c. renderNode (insert p expanded) hl c (level + 1)) l
            = map (\<lambda>c. renderNode expanded hl c (level + 1)) l"
    proof (rule map_cong [OF refl])
      fix c assume c: "c \<in> set l"
      with FileNode.prems Some have "p \<notin> node_paths c" by auto
      with c Some show "renderNode (insert p expanded) hl c (level + 1)
                          = renderNode expanded hl c (level + 1)"
        by (intro FileNode.IH) auto
    qed
    with FileNode.prems Some show ?thesis by auto
  qed
qed

lemma renderFileTree_stale:
  "p \<notin> tree_paths nodes \<Longrightarrow>
     renderFileTree (insert p expanded) hl nodes level = renderFileTree expanded hl nodes level"
  by (simp add: renderFileTree_def tree_paths_def renderNode_stale)

text \<open>A refresh is an update of the tree model and the error.\<close>

lemma loadWorkspaceTree_writes:
  "\<exists>t e. fst (loadWorkspaceTree out s) = s\<lparr>fileTree := t, error := e\<rparr>"
proof (cases out)
  case ImportRejected
  have "fst (loadWorkspaceTree ImportRejected s)
          = s\<lparr>fileTree := fileTree s, error := Some ''Error loading workspace''\<rparr>"
    by (simp add: loadWorkspaceTree_def loadWorkspaceTree_start_def)
  with ImportRejected show ?thesis by blast
next
  case TreeRejected
  have "fst (loadWorkspaceTree TreeRejected s)
          = s\<lparr>fileTree := fileTree s, error := Some ''Error loading workspace''\<rparr>"
    by (simp add: loadWorkspaceTree_def loadWorkspaceTree_start_def)
  with TreeRejected show ?thesis by blast
next
  case (TreeResolved t)
  have "fst (loadWorkspaceTree (TreeResolved t) s)
          = s\<lparr>fileTree := (case t of Some tree \<Rightarrow> tree | None \<Rightarrow> []), error := None\<rparr>"
    by (simp add: loadWorkspaceTree_def loadWorkspaceTree_start_def)
  with TreeResolved show ?thesis by blast
qed










text \<open>The gate: what goes out is spaced, and a spaced log has at most one entry per window.\<close>

lemma throttle_issue_after:
  "throttle_issue W pol (Some l) t = Some u \<Longrightarrow> l + W \<le> u"
  by (cases pol) (auto split: if_splits)

lemma throttled_spaced: "spaced W lastCall (throttled W pol lastCall calls)"
proof (induction calls arbitrary: lastCall)
  case Nil
  show ?case by simp
next
  case (Cons c cs)
  obtain src r t where c: "c = (src, r, t)" by (cases c)
  show ?case
  proof (cases "throttle_issue W pol lastCall t")
    case None
    with c Cons.IH show ?thesis by simp
  next
    case (Some u)
    with c Cons.IH [of "Some u"] show ?thesis
      by (cases lastCall) (auto dest: throttle_issue_after)
  qed
qed

lemma spaced_lower: "spaced W (Some l) xs \<Longrightarrow> (u, r) \<in> set xs \<Longrightarrow> l + W \<le> u"
proof (induction xs arbitrary: l)
  case Nil
  then show ?case by simp
next
  case (Cons x xs)
  obtain v q where x: "x = (v, q)" by (cases x)
  from Cons.prems x have lv: "l + W \<le> v" and sp: "spaced W (Some v) xs" by auto
  show ?case
  proof (cases "(u, r) = x")
    case True
    with x lv show ?thesis by simp
  next
    case False
    with Cons.prems have "(u, r) \<in> set xs" by auto
    from Cons.IH [OF sp this] lv show ?thesis by simp
  qed
qed

lemma spaced_window:
  "spaced W lastCall xs \<Longrightarrow> length (issued_in_window W a xs) \<le> 1"
  unfolding issued_in_window_def
proof (induction xs arbitrary: lastCall)
  case Nil
  show ?case by simp
next
  case (Cons x xs)
  obtain v q where x: "x = (v, q)" by (cases x)
  from Cons.prems x have sp: "spaced W (Some v) xs" by simp
  show ?case
  proof (cases "a \<le> v \<and> v < a + W")
    case True
    have "filter (\<lambda>(u, r). a \<le> u \<and> u < a + W) xs = []"
    proof -
      have "\<And>u r. (u, r) \<in> set xs \<Longrightarrow> \<not> (a \<le> u \<and> u < a + W)"
        using spaced_lower [OF sp] True by fastforce
      then show ?thesis by (auto simp: filter_empty_conv)
    qed
    with x show ?thesis by simp
  next
    case False
    with x Cons.IH [OF sp] show ?thesis by auto
  qed
qed

lemma spaced_pairwise:
  "spaced W lastCall xs \<Longrightarrow> i < j \<Longrightarrow> j < length xs \<Longrightarrow> fst (xs ! i) + W \<le> fst (xs ! j)"
proof (induction xs arbitrary: lastCall i j)
  case Nil
  then show ?case by simp
next
  case (Cons x xs)
  obtain v q where x: "x = (v, q)" by (cases x)
  from Cons.prems x have sp: "spaced W (Some v) xs" by simp
  from Cons.prems obtain j' where j: "j = Suc j'" by (cases j) auto
  show ?case
  proof (cases i)
    case 0
    from Cons.prems j have "xs ! j' \<in> set xs" by simp
    then have "(fst (xs ! j'), snd (xs ! j')) \<in> set xs" by simp
    from spaced_lower [OF sp this] 0 j x show ?thesis by simp
  next
    case (Suc i')
    with Cons.prems j Cons.IH [OF sp, of i' j'] show ?thesis by simp
  qed
qed

text \<open>With nothing in between, the segments of \<^verbatim>\<open>handleDeleteConfirm\<close> compose to its run.\<close>

lemma handleDeleteConfirm_uninterrupted:
  "handleDeleteConfirm_between del_out tree_out [] [] s = handleDeleteConfirm del_out tree_out s"
  by (cases del_out; cases tree_out)
     (simp_all add: handleDeleteConfirm_between_def handleDeleteConfirm_start_def
        handleDeleteConfirm_refreshed_def handleDeleteConfirm_def Let_def
        loadWorkspaceTree_def loadWorkspaceTree_start_def split: option.split)

text \<open>
  On the other paths of \<^verbatim>\<open>handleDownload\<close> creation and release agree: when no call
  throws, or only the final \<^verbatim>\<open>removeChild\<close> does, the URL is created once and
  released once; when the fetch or the blob fails, or \<^verbatim>\<open>createObjectURL\<close> itself
  throws, no URL is created.
\<close>

lemma handleDownload_normal_paths:
  "urls_created (handleDownload p n (BlobResolved None)) = 1
   \<and> urls_released (handleDownload p n (BlobResolved None)) = 1
   \<and> urls_released (handleDownload p n (BlobResolved (Some RemoveChild))) = 1
   \<and> urls_created (handleDownload p n DownloadRejected) = 0
   \<and> urls_created (handleDownload p n DownloadNotOk) = 0
   \<and> urls_created (handleDownload p n BlobRejected) = 0
   \<and> urls_created (handleDownload p n (BlobResolved (Some CreateObjectURL))) = 0"
  by (simp add: download_calls_def urls_created_def urls_released_def)

subsection \<open>The claims\<close>

text \<open>
  Claim C1, as the code has it. When preview of A is requested, preview of B is
  requested before A's fetch has settled, B's fetch resolves and then A's fetch
  resolves, the completion of A is committed like any other: the selected file ends as
  A's path, content and name. A completion writes the file of its own request without
  comparing it to a currently requested path, so the completion that arrives last
  wins; only when A's late completion is a failure does the selected file stay B's.
\<close>

theorem overlapping_previews_last_completion_wins:
  assumes "type a = File" and "isTextFile a" and "type b = File" and "isTextFile b"
  shows "selectedFile (overlapping_previews a (FileOk content_a) b (FileOk content_b) s)
           = Some \<lparr>sel_path = path a, sel_content = content_a, sel_name = name a\<rparr>
         \<and> selectedFile (overlapping_previews a FileNotOk b (FileOk content_b) s)
           = Some \<lparr>sel_path = path b, sel_content = content_b, sel_name = name b\<rparr>
         \<and> selectedFile (overlapping_previews a FileRejected b (FileOk content_b) s)
           = Some \<lparr>sel_path = path b, sel_content = content_b, sel_name = name b\<rparr>"
  using assms by (simp add: overlapping_previews_def handleFileClick_start_def)

theorem overlapping_previews_last_completion_wins_witness:
  "type (FileNode ''a.txt'' ''/a.txt'' File None) = File
   \<and> isTextFile (FileNode ''a.txt'' ''/a.txt'' File None)
   \<and> type (FileNode ''b.md'' ''/b.md'' File None) = File
   \<and> isTextFile (FileNode ''b.md'' ''/b.md'' File None)
   \<and> selectedFile (overlapping_previews (FileNode ''a.txt'' ''/a.txt'' File None) (FileOk ''alpha'')
         (FileNode ''b.md'' ''/b.md'' File None) (FileOk ''beta'') initial_panel)
       = Some \<lparr>sel_path = ''/a.txt'', sel_content = ''alpha'', sel_name = ''a.txt''\<rparr>"
proof -
  have a: "isTextFile (FileNode ''a.txt'' ''/a.txt'' File None)"
    by (simp add: isTextFile_def textExtensions_def endsWith_def toLowerCase_def toLowerChar_def)
  have b: "isTextFile (FileNode ''b.md'' ''/b.md'' File None)"
    by (simp add: isTextFile_def textExtensions_def endsWith_def toLowerCase_def toLowerChar_def)
  show ?thesis
    using a b overlapping_previews_last_completion_wins
      [of "FileNode ''a.txt'' ''/a.txt'' File None" "FileNode ''b.md'' ''/b.md'' File None"
          "''alpha''" "''beta''" initial_panel]
    by simp
qed

text \<open>
  Claim C1, as the specification states it, fails: with A = \<^verbatim>\<open>/a.txt\<close> and
  B = \<^verbatim>\<open>/b.md\<close>, both fetches successful and A's resolving last, the selected file
  is A's result and not B's.
\<close>

theorem stale_preview_not_discarded:
  "selectedFile (overlapping_previews (FileNode ''a.txt'' ''/a.txt'' File None) (FileOk ''alpha'')
      (FileNode ''b.md'' ''/b.md'' File None) (FileOk ''beta'') initial_panel)
     \<noteq> Some \<lparr>sel_path = ''/b.md'', sel_content = ''beta'', sel_name = ''b.md''\<rparr>"
  by (simp add: overlapping_previews_def handleFileClick_start_def isTextFile_def
        textExtensions_def endsWith_def toLowerCase_def toLowerChar_def)

text \<open>
  Claim C2. Whatever calls reach the gate, from whatever triggers and at whatever
  times, at most one request goes out in any window of one minimum spacing; in
  particular at most one request for the tree, however many refresh triggers fall into
  the window. Any two requests that go out are at least the minimum spacing apart.
  This holds whether a call that arrives too early is held back or dropped.
\<close>

theorem throttled_one_per_window:
  "length (issued_in_window minSpacing start (throttled minSpacing policy None calls)) \<le> 1
   \<and> length (issued_in_window minSpacing start
        (throttled minSpacing policy None (refresh_calls triggers))) \<le> 1
   \<and> (\<forall>i j. i < j \<and> j < length (throttled minSpacing policy None calls) \<longrightarrow>
        fst (throttled minSpacing policy None calls ! i) + minSpacing
          \<le> fst (throttled minSpacing policy None calls ! j))"
  using spaced_window [OF throttled_spaced] spaced_pairwise [OF throttled_spaced]
  by blast

theorem throttled_one_per_window_witness:
  "(0::nat) < 1
   \<and> 1 < length (throttled 3000 Deferred None
        [(PanelOpen, GetTree, 0), (ManualRefresh, GetTree, 100), (TimerTick, GetFile ''/a.txt'', 2999)])
   \<and> fst (throttled 3000 Deferred None
        [(PanelOpen, GetTree, 0), (ManualRefresh, GetTree, 100), (TimerTick, GetFile ''/a.txt'', 2999)] ! 0) + 3000
      \<le> fst (throttled 3000 Deferred None
        [(PanelOpen, GetTree, 0), (ManualRefresh, GetTree, 100), (TimerTick, GetFile ''/a.txt'', 2999)] ! 1)
   \<and> throttled 3000 Dropped None
        (refresh_calls [(PanelOpen, 0), (ManualRefresh, 100), (TimerTick, 2999), (PostOperation, 3000)])
      = [(0, GetTree), (3000, GetTree)]
   \<and> length (issued_in_window 3000 0 (throttled 3000 Dropped None
        (refresh_calls [(PanelOpen, 0), (ManualRefresh, 100), (TimerTick, 2999), (PostOperation, 3000)]))) \<le> 1"
  using throttled_one_per_window
    [of 3000 0 Deferred
        "[(PanelOpen, GetTree, 0), (ManualRefresh, GetTree, 100), (TimerTick, GetFile ''/a.txt'', 2999)]"]
    throttled_one_per_window
    [of 3000 0 Dropped "[]" "[(PanelOpen, 0), (ManualRefresh, 100), (TimerTick, 2999), (PostOperation, 3000)]"]
  by (simp add: refresh_calls_def)

text \<open>
  Claim C3. A refresh issues one call for the tree (none when the service module
  fails to load). When the call resolves, the tree model becomes the tree of the
  response (the empty tree when the response carries none) and the error is cleared;
  when the import or the call rejects, the tree model is the one from before the
  refresh and the error text is set. The same holds for the completion alone, from
  whatever state it finds.
\<close>

theorem loadWorkspaceTree_replaces_or_keeps:
  "loadWorkspaceTree (TreeResolved (Some tree)) s
     = (s\<lparr>fileTree := tree, error := None\<rparr>, [Fetch GetTree])
   \<and> loadWorkspaceTree (TreeResolved None) s
     = (s\<lparr>fileTree := [], error := None\<rparr>, [Fetch GetTree])
   \<and> fileTree (fst (loadWorkspaceTree TreeRejected s)) = fileTree s
   \<and> error (fst (loadWorkspaceTree TreeRejected s)) = Some ''Error loading workspace''
   \<and> filter is_fetch (snd (loadWorkspaceTree TreeRejected s)) = [Fetch GetTree]
   \<and> fileTree (fst (loadWorkspaceTree ImportRejected s)) = fileTree s
   \<and> error (fst (loadWorkspaceTree ImportRejected s)) = Some ''Error loading workspace''
   \<and> fileTree (fst (loadWorkspaceTree_resume (TreeResolved (Some tree)) s')) = tree
   \<and> fileTree (fst (loadWorkspaceTree_resume TreeRejected s')) = fileTree s'
   \<and> error (fst (loadWorkspaceTree_resume TreeRejected s')) = Some ''Error loading workspace''"
  by (simp add: loadWorkspaceTree_def loadWorkspaceTree_start_def)

text \<open>
  Claim C4. For a file node whose name does not end, ignoring case, with one of the
  twelve allow-listed extensions, a preview request makes no network call, leaves the
  selected file (and the whole state) unchanged and raises one notice; for a file node
  whose name does, it issues exactly one fetch, of that file's content.
\<close>

theorem handleFileClick_extension_gate:
  assumes "type f = File"
  shows "(\<not> previewable_name (name f) \<longrightarrow>
            filter is_fetch (snd (handleFileClick f out s)) = []
            \<and> selectedFile (fst (handleFileClick f out s)) = selectedFile s
            \<and> handleFileClick f out s
                = (s, [Alert ''Only text and markdown files can be previewed'']))
         \<and> (previewable_name (name f) \<longrightarrow>
            filter is_fetch (snd (handleFileClick f out s)) = [Fetch (GetFile (path f))])"
  using assms
  by (cases out)
     (simp_all add: handleFileClick_def handleFileClick_start_def isTextFile_previewable)

theorem handleFileClick_extension_gate_witness:
  "type (FileNode ''image.png'' ''/image.png'' File None) = File
   \<and> \<not> previewable_name (name (FileNode ''image.png'' ''/image.png'' File None))
   \<and> handleFileClick (FileNode ''image.png'' ''/image.png'' File None) (FileOk ''x'') initial_panel
       = (initial_panel, [Alert ''Only text and markdown files can be previewed''])
   \<and> type (FileNode ''Notes.MD'' ''/Notes.MD'' File None) = File
   \<and> previewable_name (name (FileNode ''Notes.MD'' ''/Notes.MD'' File None))
   \<and> filter is_fetch (snd (handleFileClick (FileNode ''Notes.MD'' ''/Notes.MD'' File None)
         (FileOk ''x'') initial_panel)) = [Fetch (GetFile ''/Notes.MD'')]"
proof -
  have png: "\<not> previewable_name (name (FileNode ''image.png'' ''/image.png'' File None))"
    by (simp add: previewable_name_def same_ignoring_case_def toLowerCase_def toLowerChar_def)
  have md: "previewable_name (name (FileNode ''Notes.MD'' ''/Notes.MD'' File None))"
    by (simp add: previewable_name_def same_ignoring_case_def toLowerCase_def toLowerChar_def
          char_of_eq_iff)
  show ?thesis
    using png md
      handleFileClick_extension_gate
        [of "FileNode ''image.png'' ''/image.png'' File None" "FileOk ''x''" initial_panel]
      handleFileClick_extension_gate
        [of "FileNode ''Notes.MD'' ''/Notes.MD'' File None" "FileOk ''x''" initial_panel]
    by simp
qed




text \<open>
  Claim C6 asks that the object URL be released exactly once on every exit path, also
  when the programmatic click throws. The handler run at that input: the response is
  ok, the blob resolves, the URL is created, the anchor is appended, and
  \<^verbatim>\<open>a.click()\<close> throws. Control passes to the \<^verbatim>\<open>catch\<close> block, which logs and
  alerts; \<^verbatim>\<open>revokeObjectURL\<close> is never called, so one URL was created and none was
  released.
\<close>

theorem handleDownload_throwing_click_keeps_url:
  "handleDownload ''/report.csv'' ''report.csv'' (BlobResolved (Some Click))
     = [Fetch (GetDownload ''/report.csv''), Dom CreateObjectURL, Dom CreateElement, Dom AppendChild,
        ConsoleError ''Error downloading file:'', Alert ''Error downloading file'']
   \<and> urls_created (handleDownload ''/report.csv'' ''report.csv'' (BlobResolved (Some Click))) = 1
   \<and> urls_released (handleDownload ''/report.csv'' ''report.csv'' (BlobResolved (Some Click))) = 0"
  by (simp add: download_calls_def urls_created_def urls_released_def)



text \<open>
  Claim C8. A refresh, whatever its outcome, writes the tree model and the error only:
  the expansion set and the selected file are the ones from before, so a path expanded
  before the refresh is expanded after it, whether or not the new tree has it. A
  refresh that resolves leaves no error, whatever the new tree contains, and an
  expanded path that no node of the tree carries changes nothing of what is rendered.
\<close>

theorem loadWorkspaceTree_keeps_expansion:
  "expandedFolders (fst (loadWorkspaceTree out s)) = expandedFolders s
   \<and> selectedFile (fst (loadWorkspaceTree out s)) = selectedFile s
   \<and> (\<exists>t e. fst (loadWorkspaceTree out s) = s\<lparr>fileTree := t, error := e\<rparr>)
   \<and> (p \<in> expandedFolders s \<longrightarrow> p \<in> expandedFolders (fst (loadWorkspaceTree out s)))
   \<and> error (fst (loadWorkspaceTree (TreeResolved t) s)) = None
   \<and> (p \<notin> tree_paths nodes \<longrightarrow>
        renderFileTree (insert p expanded) hl nodes level = renderFileTree expanded hl nodes level)"
proof -
  obtain t' e' where w: "fst (loadWorkspaceTree out s) = s\<lparr>fileTree := t', error := e'\<rparr>"
    using loadWorkspaceTree_writes by blast
  have "error (fst (loadWorkspaceTree (TreeResolved t) s)) = None"
    by (simp add: loadWorkspaceTree_def loadWorkspaceTree_start_def)
  with w show ?thesis
    by (auto simp: renderFileTree_stale)
qed

theorem loadWorkspaceTree_keeps_expansion_witness:
  "''/a/b'' \<in> expandedFolders (initial_panel\<lparr>expandedFolders := {''/a/b''}\<rparr>)
   \<and> ''/a/b'' \<notin> tree_paths [FileNode ''a'' ''/a'' Directory (Some [])]
   \<and> ''/a/b'' \<in> expandedFolders (fst (loadWorkspaceTree
         (TreeResolved (Some [FileNode ''a'' ''/a'' Directory (Some [])]))
         (initial_panel\<lparr>expandedFolders := {''/a/b''}\<rparr>)))
   \<and> error (fst (loadWorkspaceTree
         (TreeResolved (Some [FileNode ''a'' ''/a'' Directory (Some [])]))
         (initial_panel\<lparr>expandedFolders := {''/a/b''}\<rparr>))) = None
   \<and> renderFileTree {''/a/b''} None [FileNode ''a'' ''/a'' Directory (Some [])] 0
       = renderFileTree {} None [FileNode ''a'' ''/a'' Directory (Some [])] 0"
  using loadWorkspaceTree_keeps_expansion
    [of "TreeResolved (Some [FileNode ''a'' ''/a'' Directory (Some [])])"
        "initial_panel\<lparr>expandedFolders := {''/a/b''}\<rparr>" "''/a/b''"
        "Some [FileNode ''a'' ''/a'' Directory (Some [])]"
        "[FileNode ''a'' ''/a'' Directory (Some [])]" "{}" None 0]
  by (simp add: initial_panel_def tree_paths_def)

text \<open>
  Claim C9. Toggling a directory path removes it from the expansion set when it is a
  member and adds it otherwise, changes the membership of no other path, and toggling
  the same path twice gives back the original expansion set (and the original state).
\<close>

theorem toggleFolder_involution:
  "expandedFolders (toggleFolder p s) =
     (if p \<in> expandedFolders s then expandedFolders s - {p} else insert p (expandedFolders s))
   \<and> (\<forall>q. q \<noteq> p \<longrightarrow> (q \<in> expandedFolders (toggleFolder p s) \<longleftrightarrow> q \<in> expandedFolders s))
   \<and> expandedFolders (toggleFolder p (toggleFolder p s)) = expandedFolders s
   \<and> toggleFolder p (toggleFolder p s) = s"
  by (auto simp: toggleFolder_def Let_def insert_absorb)

theorem toggleFolder_involution_witness:
  "''/b'' \<noteq> ''/a''
   \<and> ''/a'' \<notin> expandedFolders (toggleFolder ''/a'' (initial_panel\<lparr>expandedFolders := {''/a'', ''/b''}\<rparr>))
   \<and> ''/b'' \<in> expandedFolders (toggleFolder ''/a'' (initial_panel\<lparr>expandedFolders := {''/a'', ''/b''}\<rparr>))
   \<and> ''/a'' \<in> expandedFolders (toggleFolder ''/a'' (initial_panel\<lparr>expandedFolders := {''/b''}\<rparr>))
   \<and> expandedFolders (toggleFolder ''/a'' (toggleFolder ''/a'' (initial_panel\<lparr>expandedFolders := {''/b''}\<rparr>)))
       = {''/b''}"
  using toggleFolder_involution [of "''/a''" "initial_panel\<lparr>expandedFolders := {''/a'', ''/b''}\<rparr>"]
        toggleFolder_involution [of "''/a''" "initial_panel\<lparr>expandedFolders := {''/b''}\<rparr>"]
  by (simp add: initial_panel_def)

text \<open>
  Claim C10. With a confirmation staged, the state in which \<^verbatim>\<open>handleDeleteConfirm\<close>
  finishes has no confirmation staged and the loading flag off, whatever the delete
  request and the refresh answered.
\<close>

theorem handleDeleteConfirm_clears_confirmation:
  assumes "deleteConfirmation s = Some c"
  shows "deleteConfirmation (fst (handleDeleteConfirm del_out tree_out s)) = None
         \<and> loading (fst (handleDeleteConfirm del_out tree_out s)) = False"
  using assms
  by (cases del_out; cases tree_out)
     (simp_all add: Let_def handleDeleteConfirm_def handleDeleteConfirm_finally_def
        loadWorkspaceTree_def loadWorkspaceTree_start_def split: option.split)

theorem handleDeleteConfirm_clears_confirmation_witness:
  "deleteConfirmation
     (initial_panel\<lparr>deleteConfirmation :=
        Some \<lparr>conf_file = FileNode ''x.txt'' ''/x.txt'' File None, conf_isOpen = True\<rparr>\<rparr>)
     = Some \<lparr>conf_file = FileNode ''x.txt'' ''/x.txt'' File None, conf_isOpen = True\<rparr>
   \<and> deleteConfirmation (fst (handleDeleteConfirm DeleteRejected TreeRejected
        (initial_panel\<lparr>deleteConfirmation :=
           Some \<lparr>conf_file = FileNode ''x.txt'' ''/x.txt'' File None, conf_isOpen = True\<rparr>\<rparr>))) = None
   \<and> loading (fst (handleDeleteConfirm DeleteRejected TreeRejected
        (initial_panel\<lparr>deleteConfirmation :=
           Some \<lparr>conf_file = FileNode ''x.txt'' ''/x.txt'' File None, conf_isOpen = True\<rparr>\<rparr>))) = False"
  using handleDeleteConfirm_clears_confirmation
    [of "initial_panel\<lparr>deleteConfirmation :=
           Some \<lparr>conf_file = FileNode ''x.txt'' ''/x.txt'' File None, conf_isOpen = True\<rparr>\<rparr>"
        "\<lparr>conf_file = FileNode ''x.txt'' ''/x.txt'' File None, conf_isOpen = True\<rparr>"
        DeleteRejected TreeRejected]
  by (simp add: initial_panel_def)

end
